theory Spec2Isabelle
  imports Complex_Main "HOL-Library.Word" "HOL-Library.Multiset"
begin

unbundle bit_operations_syntax

section \<open>Throwlytics: the statistics core of \<^verbatim>\<open>src/app/page.tsx\<close>\<close>

text \<open>
  The development embeds the computing functions of the page module: the helpers
  \<^verbatim>\<open>mean\<close>, \<^verbatim>\<open>sd\<close> and \<^verbatim>\<open>clamp\<close>, the band classifier \<^verbatim>\<open>bandForMetric\<close>, the diagnosis
  rules \<^verbatim>\<open>buildIssues\<close>, the synthetic population generator, the percentile search
  \<^verbatim>\<open>percentileOf\<close>, the histogram builder \<^verbatim>\<open>computeHistogram\<close> and the session statistics
  \<^verbatim>\<open>cleanThrows\<close> and \<^verbatim>\<open>stats\<close> computed inside \<^verbatim>\<open>Page\<close>. Rendering, styles and the CSV
  reader are outside it.

  Conventions of the embedding.
  \<^item> A JavaScript \<^verbatim>\<open>number\<close> that carries a measurement is a \<^typ>\<open>real\<close>: arithmetic is
    exact, there is no NaN and no infinity. A decimal literal is the fraction it writes.
    The histogram is the exception: its range and its values are arbitrary numbers, so
    there a number is a real, an infinity or NaN, and an operation whose exact result
    reaches the overflow limit of a double gives an infinity.
  \<^item> A number that the source only uses as an index, a length or a counter is a
    \<^typ>\<open>nat\<close> or an \<^typ>\<open>int\<close>. The two places where the source leaves exact
    arithmetic for 32-bit arithmetic (the shift \<^verbatim>\<open>>> 1\<close> of the percentile search and the
    bit mixing of \<^verbatim>\<open>mulberry32\<close>) are written out.
  \<^item> An optional field, and a result that may be \<^verbatim>\<open>undefined\<close>, is an \<^typ>\<open>'a option\<close>.
  \<^item> A \<^verbatim>\<open>string\<close> is a list of bytes, the UTF-8 encoding of the source text.
  \<^item> A loop is a recursive function. The loop of the percentile search is a
    \<^theory_text>\<open>partial_function\<close>: its result \<open>None\<close> stands for a search that does not return.
  \<^item> Names are those of the source. A prime marks a name that the theory language or the
    library already uses (\<open>value'\<close>, \<open>note'\<close>, \<open>min'\<close>, \<open>max'\<close>) and a parameter that shares
    its name with a field (\<open>metric'\<close>, \<open>avgNose'\<close>, \<open>cleanThrows'\<close>).
\<close>

subsection \<open>Types\<close>

datatype Metric = Wobble | Nose | Spin | Power

datatype Band = Beginner | Intermediate | Advanced

record Issue =
  metric :: Metric
  priority :: int
  headline :: string
  detail :: string
  value' :: "real option"
  unitText :: string
  goalText :: string

record BandResult =
  band :: Band
  note' :: string
  score01 :: real

record GlobalStats =
  speed :: "real list"
  spin :: "real list"
  nose :: "real list"
  wobble :: "real list"
  speedSorted :: "real list"
  spinSorted :: "real list"
  noseSorted :: "real list"
  wobbleSorted :: "real list"

text \<open>
  The fields \<open>speed\<close>, \<open>spin\<close>, \<open>nose\<close> and \<open>wobble\<close> of a throw share their names with
  those of the population; the population's are written \<open>GlobalStats.speed\<close> and so on.
\<close>

record Throw =
  idx :: nat
  time :: "string option"
  speed :: "real option"
  spin :: "real option"
  nose :: "real option"
  wobble :: "real option"
  launch :: "real option"
  hyzer :: "real option"
  primaryThrowType :: "string option"
  throwType :: "string option"

text \<open>
  \<^verbatim>\<open>buildIssues\<close> takes any object with the four averages; the statistics of a session
  extend it with the count, the deviations and the best values.
\<close>

record Averages =
  avgSpeed :: "real option"
  avgSpin :: "real option"
  avgNose :: "real option"
  avgWobble :: "real option"

record Stats = Averages +
  count :: nat
  sdSpeed :: "real option"
  sdSpin :: "real option"
  sdNose :: "real option"
  sdWobble :: "real option"
  bestSpeed :: "real option"
  bestSpin :: "real option"

subsection \<open>Helpers\<close>

text \<open>\<^verbatim>\<open>arr.reduce((a, b) => a + b, 0)\<close> is the left fold from 0.\<close>

definition mean :: "real list \<Rightarrow> real option" where
  "mean arr =
     (if length arr \<noteq> 0 then Some (foldl (\<lambda>a b. a + b) 0 arr / real (length arr)) else None)"

text \<open>
  \<^verbatim>\<open>mean(arr)!\<close> asserts the mean is defined, as it is past the length test; \<open>the\<close> reads
  it.
\<close>

definition sd :: "real list \<Rightarrow> real option" where
  "sd arr =
     (if length arr < 2 then None
      else
        (let m = the (mean arr);
             v = foldl (\<lambda>acc x. acc + (x - m) ^ 2) 0 arr / (real (length arr) - 1)
         in Some (sqrt v)))"

definition clamp :: "real \<Rightarrow> real \<Rightarrow> real \<Rightarrow> real" where
  "clamp x lo hi = max lo (min hi x)"

text \<open>The operator \<^verbatim>\<open>??\<close>: the right operand stands in for \<^verbatim>\<open>undefined\<close>.\<close>

definition nullish :: "'a option \<Rightarrow> 'a \<Rightarrow> 'a" where
  "nullish x d = (case x of None \<Rightarrow> d | Some y \<Rightarrow> y)"

text \<open>The characters of the source text outside ASCII, in UTF-8.\<close>

definition degree_sign :: string where
  "degree_sign = [CHR 0xC2, CHR 0xB0]"

definition ge_sign :: string where
  "ge_sign = [CHR 0xE2, CHR 0x89, CHR 0xA5]"

definition right_quote :: string where
  "right_quote = [CHR 0xE2, CHR 0x80, CHR 0x99]"

subsection \<open>\<^verbatim>\<open>Array.prototype.sort\<close> with a comparator\<close>

text \<open>
  The host's sort is stable and orders by the sign of the comparator. It is modelled by
  the stable insertion sort: an element goes in front of the first later element that
  the comparator does not put before it.
\<close>

fun insert_cmp :: "('a \<Rightarrow> 'a \<Rightarrow> 'n::linordered_idom) \<Rightarrow> 'a \<Rightarrow> 'a list \<Rightarrow> 'a list" where
  "insert_cmp cmp x [] = [x]"
| "insert_cmp cmp x (y # ys) =
     (if cmp x y \<le> 0 then x # y # ys else y # insert_cmp cmp x ys)"

definition array_sort :: "('a \<Rightarrow> 'a \<Rightarrow> 'n::linordered_idom) \<Rightarrow> 'a list \<Rightarrow> 'a list" where
  "array_sort cmp xs = foldr (insert_cmp cmp) xs []"

text \<open>The comparator \<^verbatim>\<open>(a, b) => a - b\<close> of the numeric sorts.\<close>

definition ascending :: "real \<Rightarrow> real \<Rightarrow> real" where
  "ascending a b = a - b"

subsection \<open>Skill bands\<close>

definition bandForMetric :: "Metric \<Rightarrow> real option \<Rightarrow> BandResult" where
  "bandForMetric metric' value =
     (case value of
        None \<Rightarrow> \<lparr>band = Beginner, note' = ''No data'', score01 = 0\<rparr>
      | Some v \<Rightarrow>
          if metric' = Wobble then
            (if v < 3 then \<lparr>band = Advanced, note' = ''Very clean release'', score01 = 0.9\<rparr>
             else if v < 4.5 then
               \<lparr>band = Intermediate, note' = ''Some OAT; manageable'', score01 = 0.6\<rparr>
             else \<lparr>band = Beginner, note' = ''High OAT/wobble'', score01 = 0.25\<rparr>)
          else if metric' = Nose then
            (if v \<ge> 1 \<and> v \<le> 3 then
               \<lparr>band = Advanced, note' = ''Driver-friendly nose'', score01 = 0.9\<rparr>
             else if v > 3 \<and> v \<le> 5 then
               \<lparr>band = Intermediate, note' = ''Slightly nose-up'', score01 = 0.55\<rparr>
             else if v > 5 then
               \<lparr>band = Beginner, note' = ''Nose-up (distance leak)'', score01 = 0.2\<rparr>
             else if \<bar>v\<bar> \<le> 1 then
               \<lparr>band = Intermediate, note' = ''Near neutral'', score01 = 0.6\<rparr>
             else
               \<lparr>band = Intermediate, note' = ''Slightly nose-down/neutral'', score01 = 0.65\<rparr>)
          else if metric' = Spin then
            (if v \<ge> 1100 then \<lparr>band = Advanced, note' = ''Elite spin'', score01 = 0.9\<rparr>
             else if v \<ge> 950 then
               \<lparr>band = Intermediate, note' = ''Solid spin'', score01 = 0.65\<rparr>
             else \<lparr>band = Beginner, note' = ''Low spin (timing/clamp)'', score01 = 0.3\<rparr>)
          else if v \<ge> 60 then \<lparr>band = Advanced, note' = ''Elite speed'', score01 = 0.9\<rparr>
          else if v \<ge> 52 then \<lparr>band = Intermediate, note' = ''Strong speed'', score01 = 0.65\<rparr>
          else \<lparr>band = Beginner, note' = ''Developing speed'', score01 = 0.35\<rparr>)"

subsection \<open>Diagnosis\<close>

text \<open>
  The detail text prints an average with the host's \<^verbatim>\<open>Number.prototype.toFixed\<close>; the
  model takes that function as its first argument, \<open>toFixed x d\<close> standing for
  \<^verbatim>\<open>x.toFixed(d)\<close>. The five object literals that the rules push are named, in the order
  of the source; each \<^verbatim>\<open>issues.push\<close> appends to the list, and the final sort orders by
  \<^verbatim>\<open>b.priority - a.priority\<close>.
\<close>

definition wobble_high_issue :: "(real \<Rightarrow> nat \<Rightarrow> string) \<Rightarrow> real option \<Rightarrow> Issue" where
  "wobble_high_issue toFixed =
     (\<lambda>wobble.
     \<lparr>metric = Wobble,
      priority = 100,
      headline = ''Wobble is costing you clean flight'',
      detail =
        ''Avg wobble: '' @ toFixed (nullish wobble 0) 1 @ degree_sign @ ''. '' @
        ''High wobble usually means off-axis torque (release not matching swing plane).'',
      value' = wobble,
      unitText = degree_sign,
      goalText = ''< 3.0'' @ degree_sign\<rparr>)"

definition wobble_some_issue :: "(real \<Rightarrow> nat \<Rightarrow> string) \<Rightarrow> real option \<Rightarrow> Issue" where
  "wobble_some_issue toFixed =
     (\<lambda>wobble.
     \<lparr>metric = Wobble,
      priority = 60,
      headline = ''Some wobble present'',
      detail =
        ''Avg wobble: '' @ toFixed (nullish wobble 0) 1 @ degree_sign @
        ''. Tightening release plane can add consistency and keep spin.'',
      value' = wobble,
      unitText = degree_sign,
      goalText = ''< 3.0'' @ degree_sign\<rparr>)"

definition nose_issue :: "(real \<Rightarrow> nat \<Rightarrow> string) \<Rightarrow> real option \<Rightarrow> Issue" where
  "nose_issue toFixed =
     (\<lambda>nose.
     \<lparr>metric = Nose,
      priority = 90,
      headline = ''Nose angle is too high (nose-up)'',
      detail =
        ''Avg nose: '' @ toFixed (nullish nose 0) 1 @ degree_sign @ ''. '' @
        ''Nose-up bleeds distance even with good speed/spin. Fixing this often adds easy carry.'',
      value' = nose,
      unitText = degree_sign,
      goalText = ''~ +1'' @ degree_sign @ '' to +3'' @ degree_sign\<rparr>)"

definition spin_issue :: "(real \<Rightarrow> nat \<Rightarrow> string) \<Rightarrow> real option \<Rightarrow> Issue" where
  "spin_issue toFixed =
     (\<lambda>spin.
     \<lparr>metric = Spin,
      priority = 70,
      headline = ''Spin is on the low side'',
      detail =
        ''Avg spin: '' @ toFixed (nullish spin 0) 0 @ '' rpm. '' @
        ''Often improved by later acceleration + cleaner hit (don'' @ right_quote @
        ''t muscle early).'',
      value' = spin,
      unitText = ''rpm'',
      goalText = ge_sign @ '' 950 rpm''\<rparr>)"

definition power_issue :: "(real \<Rightarrow> nat \<Rightarrow> string) \<Rightarrow> real option \<Rightarrow> Issue" where
  "power_issue toFixed =
     (\<lambda>speed.
     \<lparr>metric = Power,
      priority = 40,
      headline = ''Speed (power) has room to grow'',
      detail =
        ''Avg speed: '' @ toFixed (nullish speed 0) 1 @ '' mph. '' @
        ''Sequencing + a later hit usually increases speed without increasing wobble.'',
      value' = speed,
      unitText = ''mph'',
      goalText = ge_sign @ '' 52 mph''\<rparr>)"

definition buildIssues :: "(real \<Rightarrow> nat \<Rightarrow> string) \<Rightarrow> 'a Averages_scheme \<Rightarrow> Issue list" where
  "buildIssues toFixed stats =
     (let issues = [];
          wobble = avgWobble stats;
          nose = avgNose stats;
          spin = avgSpin stats;
          speed = avgSpeed stats;
          issues =
            (if nullish wobble 0 > 4 then issues @ [wobble_high_issue toFixed wobble]
             else if nullish wobble 0 > 3 then issues @ [wobble_some_issue toFixed wobble]
             else issues);
          issues = (if nullish nose 0 > 4 then issues @ [nose_issue toFixed nose] else issues);
          issues =
            (if nullish spin 0 > 0 \<and> nullish spin 0 < 900
             then issues @ [spin_issue toFixed spin] else issues);
          issues =
            (if nullish speed 0 > 0 \<and> nullish speed 0 < 50
             then issues @ [power_issue toFixed speed] else issues)
      in array_sort (\<lambda>a b. priority b - priority a) issues)"

subsection \<open>The synthetic population\<close>

text \<open>
  The generator state of \<^verbatim>\<open>mulberry32\<close> is the captured variable \<^verbatim>\<open>seed\<close>, an integer
  that grows by the increment at every call (the addition of the source is exact while
  the state is below \<open>2 ^ 53\<close>); the bit operations see it modulo \<open>2 ^ 32\<close>.
  A call returns the drawn number and the new state. \<^verbatim>\<open>Math.imul\<close> is the product and
  \<^verbatim>\<open>>>>\<close> the logical shift of 32-bit words; the sum inside the second mixing step is
  reduced modulo \<open>2 ^ 32\<close> by the exclusive or that consumes it.
\<close>

definition mulberry32 :: "int \<Rightarrow> real \<times> int" where
  "mulberry32 seed =
     (let seed = seed + 0x6d2b79f5;
          t = (word_of_int seed :: 32 word);
          t = (t XOR drop_bit 15 t) * (t OR 1);
          t = t XOR (t + (t XOR drop_bit 7 t) * (t OR 61))
      in (real (unat (t XOR drop_bit 14 t)) / 4294967296, seed))"

text \<open>\<^verbatim>\<open>while (u === 0) u = rng()\<close>, started at \<^verbatim>\<open>u = 0\<close>: draw until the draw is not zero.\<close>

function draw_nonzero :: "int \<Rightarrow> real \<times> int" where
  "draw_nonzero seed =
     (case mulberry32 seed of (u, seed') \<Rightarrow> if u = 0 then draw_nonzero seed' else (u, seed'))"
  by pat_completeness auto

text \<open>
  \<^verbatim>\<open>randNormal\<close> draws \<^verbatim>\<open>u\<close>, then \<^verbatim>\<open>v\<close>, and returns the cosine branch of the Box-Muller
  transform together with the generator state.
\<close>

definition randNormal :: "int \<Rightarrow> real \<times> int" where
  "randNormal seed =
     (case draw_nonzero seed of (u, seed) \<Rightarrow>
      case draw_nonzero seed of (v, seed) \<Rightarrow>
        (sqrt (- 2.0 * ln u) * cos (2.0 * pi * v), seed))"

text \<open>
  The loop \<^verbatim>\<open>for (let i = 0; i < nSessions; i++)\<close>, for a sample count that is a natural
  number. The four arrays travel as one tuple
  \<open>(speed', spin', nose', wobble')\<close>; \<^verbatim>\<open>push\<close> appends. The five normal deviates of a round
  are drawn in the order of the source: skill, then the noise of speed, wobble, nose and
  spin.
\<close>

function generate_loop ::
  "nat \<Rightarrow> nat \<Rightarrow> int \<Rightarrow> real list \<times> real list \<times> real list \<times> real list
     \<Rightarrow> real list \<times> real list \<times> real list \<times> real list" where
  "generate_loop i nSessions seed arrays =
     (if i < nSessions then
        (case arrays of (speed', spin', nose', wobble') \<Rightarrow>
         case randNormal seed of (skill, seed) \<Rightarrow>
         case randNormal seed of (n1, seed) \<Rightarrow>
         let spd = clamp (47 + 4.2 * skill + 3.8 * n1) 25 68 in
         case randNormal seed of (n2, seed) \<Rightarrow>
         let wob = clamp (4.3 - 0.9 * skill + 0.9 * \<bar>n2\<bar>) 0.8 11.0 in
         case randNormal seed of (n3, seed) \<Rightarrow>
         let nos = clamp (3.0 - 0.4 * skill + 0.55 * (wob - 3.5) + 1.8 * n3) (- 6) 14 in
         case randNormal seed of (n4, seed) \<Rightarrow>
         let spn = clamp (860 + 10.5 * (spd - 45) + 70 * skill - 20 * (wob - 3.5) + 85 * n4)
                     350 1250
         in generate_loop (i + 1) nSessions seed
              (speed' @ [spd], spin' @ [spn], nose' @ [nos], wobble' @ [wob]))
      else arrays)"
  by pat_completeness auto
termination
  by (relation "measure (\<lambda>(i, nSessions, seed, arrays). nSessions - i)") auto

definition generateSyntheticGlobalStats :: "nat \<Rightarrow> int \<Rightarrow> GlobalStats" where
  "generateSyntheticGlobalStats nSessions seed =
     (case generate_loop 0 nSessions seed ([], [], [], []) of
        (speed', spin', nose', wobble') \<Rightarrow>
          \<lparr>GlobalStats.speed = speed',
           spin = spin',
           nose = nose',
           wobble = wobble',
           speedSorted = array_sort ascending speed',
           spinSorted = array_sort ascending spin',
           noseSorted = array_sort ascending nose',
           wobbleSorted = array_sort ascending wobble'\<rparr>)"

subsection \<open>The percentile search\<close>

text \<open>
  \<^verbatim>\<open>(lo + hi) >> 1\<close> converts the sum to a signed 32-bit integer and shifts it right
  arithmetically: \<open>toInt32\<close> is the conversion, the shift is the division by two that
  rounds down.
\<close>

definition toInt32 :: "int \<Rightarrow> int" where
  "toInt32 n = (n + 2 ^ 31) mod 2 ^ 32 - 2 ^ 31"

definition midpoint :: "int \<Rightarrow> int \<Rightarrow> int" where
  "midpoint lo hi = toInt32 (lo + hi) div 2"

text \<open>
  \<^verbatim>\<open>sortedAsc[mid] <= value\<close>. A read outside the array gives \<^verbatim>\<open>undefined\<close>, and the
  comparison of \<^verbatim>\<open>undefined\<close> with a number is false.
\<close>

definition element_le :: "real list \<Rightarrow> int \<Rightarrow> real \<Rightarrow> bool" where
  "element_le sortedAsc mid value \<longleftrightarrow>
     0 \<le> mid \<and> mid < int (length sortedAsc) \<and> sortedAsc ! nat mid \<le> value"

partial_function (option) bisect :: "real list \<Rightarrow> real \<Rightarrow> int \<Rightarrow> int \<Rightarrow> int option" where
  "bisect sortedAsc value lo hi =
     (if lo < hi then
        (if element_le sortedAsc (midpoint lo hi) value
         then bisect sortedAsc value (midpoint lo hi + 1) hi
         else bisect sortedAsc value lo (midpoint lo hi))
      else Some lo)"

declare bisect.simps [code]

text \<open>\<^verbatim>\<open>Math.round\<close> rounds to the nearest integer, a half towards plus infinity.\<close>

definition math_round :: "real \<Rightarrow> int" where
  "math_round x = \<lfloor>x + 1 / 2\<rfloor>"

text \<open>
  The outer \<open>option\<close> of the result is the return of the call, the inner one the
  returned value: \<open>Some None\<close> is the \<^verbatim>\<open>undefined\<close> returned for an empty array.
\<close>

definition percentileOf :: "real \<Rightarrow> real list \<Rightarrow> bool \<Rightarrow> int option option" where
  "percentileOf value sortedAsc higherIsBetter =
     (if sortedAsc = [] then Some None
      else map_option
        (\<lambda>lo. let frac = real_of_int lo / real (length sortedAsc);
                  p = (if higherIsBetter then frac else 1 - frac)
              in Some (math_round (p * 100)))
        (bisect sortedAsc value 0 (int (length sortedAsc))))"

text \<open>
  For the nose percentile closeness to +2 is better: the population is turned into its
  distances from the target.
\<close>

definition nosePercentileFromAvg :: "real \<Rightarrow> GlobalStats \<Rightarrow> int option option" where
  "nosePercentileFromAvg avgNose' g =
     (let target = 2;
          distArr = array_sort ascending (map (\<lambda>n. \<bar>n - target\<bar>) (GlobalStats.nose g));
          userDist = \<bar>avgNose' - target\<bar>
      in percentileOf userDist distArr False)"

subsection \<open>Numbers that overflow\<close>

text \<open>
  A double is finite, an infinity or NaN. \<open>Num x\<close> is the finite number \<open>x\<close>; the two
  zeros are the one \<open>Num 0\<close>.
\<close>

datatype number = NaN | NegInf | Num real | PosInf

text \<open>
  Rounding to nearest turns an exact result into an infinity from \<open>2 ^ 1024 - 2 ^ 970\<close>
  on, half a unit in the last place above the largest double. Below that limit the model
  keeps the exact result: the rounding to one of the neighbouring doubles is not
  modelled.
\<close>

definition overflow_limit :: real where
  "overflow_limit = 2 ^ 1024 - 2 ^ 970"

definition rounded :: "real \<Rightarrow> number" where
  "rounded x =
     (if overflow_limit \<le> x then PosInf else if x \<le> - overflow_limit then NegInf else Num x)"

text \<open>The operators \<^verbatim>\<open>-\<close>, \<^verbatim>\<open>*\<close>, \<^verbatim>\<open>/\<close> and \<^verbatim>\<open><=\<close> on numbers.\<close>

fun num_sub :: "number \<Rightarrow> number \<Rightarrow> number" where
  "num_sub NaN b = NaN"
| "num_sub a NaN = NaN"
| "num_sub (Num a) (Num b) = rounded (a - b)"
| "num_sub PosInf PosInf = NaN"
| "num_sub NegInf NegInf = NaN"
| "num_sub PosInf b = PosInf"
| "num_sub NegInf b = NegInf"
| "num_sub (Num a) PosInf = NegInf"
| "num_sub (Num a) NegInf = PosInf"

fun num_mul :: "number \<Rightarrow> number \<Rightarrow> number" where
  "num_mul NaN b = NaN"
| "num_mul a NaN = NaN"
| "num_mul (Num a) (Num b) = rounded (a * b)"
| "num_mul PosInf (Num b) = (if b = 0 then NaN else if 0 < b then PosInf else NegInf)"
| "num_mul NegInf (Num b) = (if b = 0 then NaN else if 0 < b then NegInf else PosInf)"
| "num_mul (Num a) PosInf = (if a = 0 then NaN else if 0 < a then PosInf else NegInf)"
| "num_mul (Num a) NegInf = (if a = 0 then NaN else if 0 < a then NegInf else PosInf)"
| "num_mul PosInf PosInf = PosInf"
| "num_mul NegInf NegInf = PosInf"
| "num_mul PosInf NegInf = NegInf"
| "num_mul NegInf PosInf = NegInf"

text \<open>A zero divisor is taken as the positive zero.\<close>

fun num_div :: "number \<Rightarrow> number \<Rightarrow> number" where
  "num_div NaN b = NaN"
| "num_div a NaN = NaN"
| "num_div (Num a) (Num b) =
     (if b = 0 then (if a = 0 then NaN else if 0 < a then PosInf else NegInf)
      else rounded (a / b))"
| "num_div (Num a) PosInf = Num 0"
| "num_div (Num a) NegInf = Num 0"
| "num_div PosInf (Num b) = (if 0 \<le> b then PosInf else NegInf)"
| "num_div NegInf (Num b) = (if 0 \<le> b then NegInf else PosInf)"
| "num_div PosInf PosInf = NaN"
| "num_div PosInf NegInf = NaN"
| "num_div NegInf PosInf = NaN"
| "num_div NegInf NegInf = NaN"

fun num_le :: "number \<Rightarrow> number \<Rightarrow> bool" where
  "num_le NaN b = False"
| "num_le a NaN = False"
| "num_le NegInf b = True"
| "num_le a PosInf = True"
| "num_le (Num a) (Num b) = (a \<le> b)"
| "num_le PosInf b = False"
| "num_le a NegInf = False"

text \<open>\<^verbatim>\<open>Math.floor\<close>, \<^verbatim>\<open>Math.max\<close> and \<^verbatim>\<open>Math.min\<close> of two arguments; NaN is contagious.\<close>

fun math_floor :: "number \<Rightarrow> number" where
  "math_floor (Num a) = Num (of_int \<lfloor>a\<rfloor>)"
| "math_floor a = a"

fun math_max :: "number \<Rightarrow> number \<Rightarrow> number" where
  "math_max NaN b = NaN"
| "math_max a NaN = NaN"
| "math_max PosInf b = PosInf"
| "math_max a PosInf = PosInf"
| "math_max NegInf b = b"
| "math_max a NegInf = a"
| "math_max (Num a) (Num b) = Num (max a b)"

fun math_min :: "number \<Rightarrow> number \<Rightarrow> number" where
  "math_min NaN b = NaN"
| "math_min a NaN = NaN"
| "math_min NegInf b = NegInf"
| "math_min a NegInf = NegInf"
| "math_min PosInf b = b"
| "math_min a PosInf = a"
| "math_min (Num a) (Num b) = Num (min a b)"

subsection \<open>The histogram\<close>

record Histogram =
  counts :: "nat list"
  min' :: number
  max' :: number

datatype error = RangeError

text \<open>
  \<^verbatim>\<open>new Array(bins)\<close> makes an array of \<^verbatim>\<open>bins\<close> elements when \<^verbatim>\<open>bins\<close> is an integer from 0
  to \<open>2 ^ 32 - 1\<close> and throws a \<^verbatim>\<open>RangeError\<close> for every other number.
\<close>

definition array_length :: "number \<Rightarrow> nat option" where
  "array_length n =
     (case n of
        Num b \<Rightarrow> if b = of_int \<lfloor>b\<rfloor> \<and> 0 \<le> b \<and> b < 2 ^ 32 then Some (nat \<lfloor>b\<rfloor>) else None
      | _ \<Rightarrow> None)"

text \<open>
  \<^verbatim>\<open>counts[idx]++\<close>. An index that is an integer inside the array names an element, a
  counter that goes up by one. Every other index (NaN, or \<open>- 1\<close> when there is no bin)
  names a property that is no element, and the elements stay as they are; the index is
  at most \<^verbatim>\<open>bins - 1\<close>, so it never lies past the end.
\<close>

definition increment :: "nat list \<Rightarrow> number \<Rightarrow> nat list" where
  "increment arr i =
     (case i of
        Num k \<Rightarrow>
          if k = of_int \<lfloor>k\<rfloor> \<and> 0 \<le> k \<and> k < real (length arr)
          then arr[nat \<lfloor>k\<rfloor> := arr ! nat \<lfloor>k\<rfloor> + 1] else arr
      | _ \<Rightarrow> arr)"

text \<open>
  The result is \<open>Inl RangeError\<close> when the array of counts cannot be made, and the
  returned object otherwise.
\<close>

definition computeHistogram ::
  "number list \<Rightarrow> number \<Rightarrow> number \<Rightarrow> number \<Rightarrow> error + Histogram" where
  "computeHistogram values bins mn mx =
     (case array_length bins of
        None \<Rightarrow> Inl RangeError
      | Some n \<Rightarrow>
          Inr
            (let counts = replicate n 0;
                 span = num_sub mx mn
             in if num_le span (Num 0) then \<lparr>counts = counts, min' = mn, max' = mx\<rparr>
                else
                  \<lparr>counts =
                     foldl
                       (\<lambda>counts v.
                          let t = num_div (num_sub v mn) span;
                              idx = math_min (num_sub bins (Num 1))
                                      (math_max (Num 0) (math_floor (num_mul t bins)))
                          in increment counts idx)
                       counts values,
                   min' = mn, max' = mx\<rparr>))"

subsection \<open>Session statistics\<close>

definition cleanThrows :: "Throw list \<Rightarrow> Throw list" where
  "cleanThrows throws = filter (\<lambda>t. speed t \<noteq> None \<or> spin t \<noteq> None) throws"

text \<open>
  \<^verbatim>\<open>.filter((v): v is number => typeof v === "number")\<close> keeps the defined entries.
  \<^verbatim>\<open>Math.max(...xs)\<close> is only called on a non-empty array, where it is the maximum.
\<close>

definition numbers :: "real option list \<Rightarrow> real list" where
  "numbers vs = map the (filter (\<lambda>v. v \<noteq> None) vs)"

definition stats :: "Throw list \<Rightarrow> Stats" where
  "stats cleanThrows' =
     (let speeds = numbers (map speed cleanThrows');
          spins = numbers (map spin cleanThrows');
          noses = numbers (map nose cleanThrows');
          wobbles = numbers (map wobble cleanThrows')
      in \<lparr>avgSpeed = mean speeds,
          avgSpin = mean spins,
          avgNose = mean noses,
          avgWobble = mean wobbles,
          count = length cleanThrows',
          sdSpeed = sd speeds,
          sdSpin = sd spins,
          sdNose = sd noses,
          sdWobble = sd wobbles,
          bestSpeed = (if length speeds \<noteq> 0 then Some (Max (set speeds)) else None),
          bestSpin = (if length spins \<noteq> 0 then Some (Max (set spins)) else None)\<rparr>)"

subsection \<open>The nose percentile as the specification words it\<close>

text \<open>
  The specification's reading of the nose percentile, for comparison with
  \<open>nosePercentileFromAvg\<close>: the distances of the population from the fixed target +2,
  sorted ascending, and the general percentile function on the distance of the observed
  average, lower being better.
\<close>

definition spec_nose_target :: real where
  "spec_nose_target = 2"

definition spec_nose_percentile :: "real \<Rightarrow> real list \<Rightarrow> int option option" where
  "spec_nose_percentile observed population =
     (let distances = map (\<lambda>n. \<bar>n - spec_nose_target\<bar>) population;
          sorted_distances = sort distances;
          observed_distance = \<bar>observed - spec_nose_target\<bar>
      in percentileOf observed_distance sorted_distances False)"

section \<open>Properties\<close>

subsection \<open>The draw loop of \<^verbatim>\<open>randNormal\<close> terminates\<close>

text \<open>
  The state of the generator moves by an odd increment, so modulo \<open>2 ^ 32\<close> it reaches
  every residue; at the residue 1 the draw is \<open>63 / 2 ^ 32\<close>. From any seed a non-zero
  draw is therefore a finite number of calls away, and that number is the measure of the
  loop.
\<close>

lemma mulberry32_state: "snd (mulberry32 seed) = seed + 0x6d2b79f5"
  by (simp add: mulberry32_def Let_def)

lemma mulberry32_at_one:
  assumes "word_of_int (seed + 0x6d2b79f5) = (1 :: 32 word)"
  shows "fst (mulberry32 seed) = 63 / 4294967296"
  unfolding mulberry32_def Let_def fst_conv assms by simp

lemma nonzero_reachable: "\<exists>k. fst (mulberry32 (seed + int k * 0x6d2b79f5)) \<noteq> 0"
proof -
  define w :: "32 word" where "w = (1 - word_of_int seed) * 3696798301 - 1"
  have "word_of_int (seed + int (unat w) * 0x6d2b79f5 + 0x6d2b79f5)
      = word_of_int seed + (w + 1) * (0x6d2b79f5 :: 32 word)"
    by (simp add: algebra_simps)
  also have "\<dots> = word_of_int seed + (1 - word_of_int seed) * (3696798301 * 0x6d2b79f5)"
    by (simp only: w_def diff_add_cancel mult.assoc)
  also have "(3696798301 * 0x6d2b79f5 :: 32 word) = 1"
    by simp
  also have "word_of_int seed + (1 - word_of_int seed) * 1 = (1 :: 32 word)"
    by simp
  finally have "fst (mulberry32 (seed + int (unat w) * 0x6d2b79f5)) = 63 / 4294967296"
    by (rule mulberry32_at_one)
  then have "fst (mulberry32 (seed + int (unat w) * 0x6d2b79f5)) \<noteq> 0"
    by simp
  then show ?thesis ..
qed

lemma draw_measure:
  assumes "fst (mulberry32 seed) = 0"
  shows "(LEAST k. fst (mulberry32 (seed + 0x6d2b79f5 + int k * 0x6d2b79f5)) \<noteq> 0)
       < (LEAST k. fst (mulberry32 (seed + int k * 0x6d2b79f5)) \<noteq> 0)"
proof -
  let ?P = "\<lambda>k. fst (mulberry32 (seed + int k * 0x6d2b79f5)) \<noteq> 0"
  obtain n where n: "?P n" using nonzero_reachable by blast
  have "\<not> ?P 0" using assms by simp
  with n have "(LEAST k. ?P k) = Suc (LEAST k. ?P (Suc k))" by (rule Least_Suc)
  moreover have "\<And>k. seed + int (Suc k) * 0x6d2b79f5 = seed + 0x6d2b79f5 + int k * 0x6d2b79f5"
    by (simp add: algebra_simps)
  ultimately show ?thesis by (simp add: add.assoc)
qed

termination draw_nonzero
proof (relation "measure (\<lambda>seed. LEAST k. fst (mulberry32 (seed + int k * 0x6d2b79f5)) \<noteq> 0)")
  show "wf (measure (\<lambda>seed. LEAST k. fst (mulberry32 (seed + int k * 0x6d2b79f5)) \<noteq> 0))"
    by simp
next
  fix seed :: int and u :: real and seed' :: int
  assume draw: "(u, seed') = mulberry32 seed" and zero: "u = 0"
  have "fst (mulberry32 seed) = 0"
    using draw zero by (metis fst_conv)
  moreover have "seed' = seed + 0x6d2b79f5"
    using draw mulberry32_state [of seed] by (metis snd_conv)
  ultimately show "(seed', seed)
      \<in> measure (\<lambda>seed. LEAST k. fst (mulberry32 (seed + int k * 0x6d2b79f5)) \<noteq> 0)"
    using draw_measure [of seed] by simp
qed

text \<open>The loop leaves with a draw that is not zero, so \<^verbatim>\<open>Math.log\<close> never sees 0.\<close>

lemma draw_nonzero_nonzero: "fst (draw_nonzero seed) \<noteq> 0"
  by (induction seed rule: draw_nonzero.induct) (subst draw_nonzero.simps, auto split: prod.splits)

subsection \<open>The search loop\<close>

text \<open>
  While the sum \<open>lo + hi\<close> stays below \<open>2 ^ 31\<close> the shift halves it; from \<open>2 ^ 31\<close> on
  the converted sum is negative, the read at the negative index is \<^verbatim>\<open>undefined\<close> and the
  loop leaves with the \<open>lo\<close> it has.
\<close>

lemma midpoint_exact:
  assumes "0 \<le> lo" "lo < hi" "lo + hi < 2 ^ 31"
  shows "midpoint lo hi = (lo + hi) div 2"
proof -
  have "(lo + hi + 2 ^ 31) mod 2 ^ 32 = lo + hi + 2 ^ 31"
    using assms by (intro mod_pos_pos_trivial) auto
  then show ?thesis by (simp add: midpoint_def toInt32_def)
qed

lemma midpoint_overflow:
  assumes "2 ^ 31 \<le> lo + hi" "lo + hi < 2 ^ 32"
  shows "midpoint lo hi < 0"
proof -
  have "lo + hi + 2 ^ 31 = (lo + hi - 2 ^ 31) + 2 ^ 32" by simp
  then have "(lo + hi + 2 ^ 31) mod 2 ^ 32 = (lo + hi - 2 ^ 31) mod 2 ^ 32"
    by (metis mod_add_self2)
  also have "\<dots> = lo + hi - 2 ^ 31"
    using assms by (intro mod_pos_pos_trivial) auto
  finally show ?thesis using assms by (simp add: midpoint_def toInt32_def)
qed

lemma midpoint_cases:
  assumes "0 \<le> lo" "lo < hi" "hi < 2 ^ 31"
  shows "midpoint lo hi < hi \<and> (midpoint lo hi < 0 \<or> lo \<le> midpoint lo hi)"
proof (cases "lo + hi < 2 ^ 31")
  case True
  then have "midpoint lo hi = (lo + hi) div 2"
    using assms by (simp add: midpoint_exact)
  then show ?thesis using assms by linarith
next
  case False
  then have "midpoint lo hi < 0"
    using assms by (intro midpoint_overflow) auto
  then show ?thesis using assms by linarith
qed

lemma element_le_member: "element_le xs i v \<Longrightarrow> \<exists>x\<in>set xs. x \<le> v"
proof -
  assume "element_le xs i v"
  then have "nat i < length xs" "xs ! nat i \<le> v" by (auto simp: element_le_def)
  then show ?thesis using nth_mem by blast
qed

lemma element_le_all:
  assumes "\<forall>x\<in>set xs. x \<le> v" "0 \<le> i" "i < int (length xs)"
  shows "element_le xs i v"
proof -
  have "nat i < length xs" using assms(2,3) by simp
  then have "xs ! nat i \<in> set xs" by (rule nth_mem)
  then show ?thesis using assms by (simp add: element_le_def)
qed

lemma bisect_exit: "\<not> lo < hi \<Longrightarrow> bisect xs v lo hi = Some lo"
  by (subst bisect.simps) simp

lemma bisect_right:
  "lo < hi \<Longrightarrow> element_le xs (midpoint lo hi) v \<Longrightarrow>
   bisect xs v lo hi = bisect xs v (midpoint lo hi + 1) hi"
  by (subst bisect.simps) simp

lemma bisect_left:
  "lo < hi \<Longrightarrow> \<not> element_le xs (midpoint lo hi) v \<Longrightarrow>
   bisect xs v lo hi = bisect xs v lo (midpoint lo hi)"
  by (subst bisect.simps) simp

lemma bisect_returns:
  assumes "0 \<le> lo" "hi < 2 ^ 31"
  shows "\<exists>r. bisect xs v lo hi = Some r \<and> lo \<le> r \<and> r \<le> max lo hi"
  using assms
proof (induction "nat (hi - lo)" arbitrary: lo hi rule: less_induct)
  case less
  show ?case
  proof (cases "lo < hi")
    case False
    then show ?thesis by (simp add: bisect_exit)
  next
    case True
    note m = midpoint_cases [OF less.prems(1) True less.prems(2)]
    show ?thesis
    proof (cases "element_le xs (midpoint lo hi) v")
      case le: True
      then have lm: "lo \<le> midpoint lo hi" by (simp add: element_le_def) (use m in linarith)
      have "\<exists>r. bisect xs v (midpoint lo hi + 1) hi = Some r \<and> midpoint lo hi + 1 \<le> r
              \<and> r \<le> max (midpoint lo hi + 1) hi"
        using lm m less.prems True by (intro less.hyps) auto
      then show ?thesis using bisect_right [OF True le] lm m by auto
    next
      case nle: False
      have "\<exists>r. bisect xs v lo (midpoint lo hi) = Some r \<and> lo \<le> r
              \<and> r \<le> max lo (midpoint lo hi)"
        using m less.prems True by (intro less.hyps) auto
      then show ?thesis using bisect_left [OF True nle] m by auto
    qed
  qed
qed

lemma bisect_mono:
  assumes "v1 \<le> v2" "0 \<le> lo" "hi < 2 ^ 31"
  shows "\<exists>r1 r2. bisect xs v1 lo hi = Some r1 \<and> bisect xs v2 lo hi = Some r2 \<and> r1 \<le> r2"
  using assms(2,3)
proof (induction "nat (hi - lo)" arbitrary: lo hi rule: less_induct)
  case less
  show ?case
  proof (cases "lo < hi")
    case False
    then show ?thesis by (simp add: bisect_exit)
  next
    case True
    note m = midpoint_cases [OF less.prems(1) True less.prems(2)]
    show ?thesis
    proof (cases "element_le xs (midpoint lo hi) v1")
      case le1: True
      then have le2: "element_le xs (midpoint lo hi) v2"
        using assms(1) by (auto simp: element_le_def)
      from le1 have lm: "lo \<le> midpoint lo hi" by (simp add: element_le_def) (use m in linarith)
      have "\<exists>r1 r2. bisect xs v1 (midpoint lo hi + 1) hi = Some r1
              \<and> bisect xs v2 (midpoint lo hi + 1) hi = Some r2 \<and> r1 \<le> r2"
        using lm m less.prems True by (intro less.hyps) auto
      then show ?thesis
        using bisect_right [OF True le1] bisect_right [OF True le2] by simp
    next
      case nle1: False
      show ?thesis
      proof (cases "element_le xs (midpoint lo hi) v2")
        case nle2: False
        have "\<exists>r1 r2. bisect xs v1 lo (midpoint lo hi) = Some r1
                \<and> bisect xs v2 lo (midpoint lo hi) = Some r2 \<and> r1 \<le> r2"
          using m less.prems True by (intro less.hyps) auto
        then show ?thesis
          using bisect_left [OF True nle1] bisect_left [OF True nle2] by simp
      next
        case le2: True
        then have lm: "lo \<le> midpoint lo hi" by (simp add: element_le_def) (use m in linarith)
        obtain r1 where r1: "bisect xs v1 lo (midpoint lo hi) = Some r1"
            "r1 \<le> max lo (midpoint lo hi)"
          using bisect_returns [of lo "midpoint lo hi" xs v1] m less.prems by auto
        obtain r2 where r2: "bisect xs v2 (midpoint lo hi + 1) hi = Some r2"
            "midpoint lo hi + 1 \<le> r2"
          using bisect_returns [of "midpoint lo hi + 1" hi xs v2] lm less.prems by auto
        have "r1 \<le> r2" using r1(2) r2(2) lm by simp
        then show ?thesis
          using bisect_left [OF True nle1] bisect_right [OF True le2] r1(1) r2(1) by simp
      qed
    qed
  qed
qed

lemma bisect_huge:
  assumes "2 ^ 31 \<le> hi" "hi < 2 ^ 32"
  shows "bisect xs v 0 hi = Some 0"
proof -
  have neg: "midpoint 0 hi < 0" using assms by (intro midpoint_overflow) auto
  then have "\<not> element_le xs (midpoint 0 hi) v" by (simp add: element_le_def)
  moreover have "0 < hi" using assms by (smt (verit) zero_less_power)
  ultimately have "bisect xs v 0 hi = bisect xs v 0 (midpoint 0 hi)"
    by (intro bisect_left)
  with neg show ?thesis by (simp add: bisect_exit)
qed

lemma bisect_below:
  assumes "\<forall>x\<in>set xs. v < x" "0 \<le> lo" "hi < 2 ^ 31"
  shows "bisect xs v lo hi = Some lo"
  using assms(2,3)
proof (induction "nat (hi - lo)" arbitrary: hi rule: less_induct)
  case less
  show ?case
  proof (cases "lo < hi")
    case False
    then show ?thesis by (simp add: bisect_exit)
  next
    case True
    note m = midpoint_cases [OF less.prems(1) True less.prems(2)]
    have nle: "\<not> element_le xs (midpoint lo hi) v"
      using assms(1) element_le_member [of xs "midpoint lo hi" v] by fastforce
    have "bisect xs v lo (midpoint lo hi) = Some lo"
      using m less.prems True by (intro less.hyps) auto
    then show ?thesis using bisect_left [OF True nle] by simp
  qed
qed

lemma bisect_above:
  assumes "\<forall>x\<in>set xs. x \<le> v" "length xs \<le> 2 ^ 30" "0 \<le> lo" "lo \<le> int (length xs)"
  shows "bisect xs v lo (int (length xs)) = Some (int (length xs))"
  using assms(3,4)
proof (induction "nat (int (length xs) - lo)" arbitrary: lo rule: less_induct)
  case less
  show ?case
  proof (cases "lo < int (length xs)")
    case False
    then show ?thesis using less.prems by (simp add: bisect_exit)
  next
    case True
    have len: "int (length xs) \<le> 2 ^ 30" using assms(2) by (metis of_nat_le_iff of_nat_numeral of_nat_power)
    then have "midpoint lo (int (length xs)) = (lo + int (length xs)) div 2"
      using less.prems True by (intro midpoint_exact) auto
    then have m: "lo \<le> midpoint lo (int (length xs))" "midpoint lo (int (length xs)) < int (length xs)"
      using True by linarith+
    then have le: "element_le xs (midpoint lo (int (length xs))) v"
      using assms(1) less.prems by (intro element_le_all) auto
    have "bisect xs v (midpoint lo (int (length xs)) + 1) (int (length xs)) = Some (int (length xs))"
      using m less.prems by (intro less.hyps) auto
    then show ?thesis using bisect_right [OF True le] by simp
  qed
qed

subsection \<open>The comparator sort on numbers\<close>

lemma insert_cmp_ascending: "insert_cmp ascending x ys = insort x ys"
  by (induction ys) (simp_all add: ascending_def)

lemma array_sort_ascending: "array_sort ascending xs = sort xs"
  by (induction xs) (simp_all add: array_sort_def insert_cmp_ascending)

subsection \<open>Percentiles\<close>

lemma math_round_mono: "x \<le> y \<Longrightarrow> math_round x \<le> math_round y"
  by (simp add: math_round_def floor_mono)

lemma percentileOf_bisect:
  assumes "xs \<noteq> []" "bisect xs v 0 (int (length xs)) = Some r"
  shows "percentileOf v xs True = Some (Some (math_round (real_of_int r / real (length xs) * 100)))"
    and "percentileOf v xs False
         = Some (Some (math_round ((1 - real_of_int r / real (length xs)) * 100)))"
  using assms by (simp_all add: percentileOf_def)

lemma length_bound_int:
  "length (xs :: 'a list) \<le> 2 ^ 30 \<Longrightarrow> int (length xs) < 2 ^ 31"
proof -
  assume "length xs \<le> 2 ^ 30"
  then have "int (length xs) \<le> int (2 ^ 30)" by (simp only: of_nat_le_iff)
  then show ?thesis by simp
qed

text \<open>
  Claim C1, as the code has it. For a non-empty ascending array of at most \<open>2 ^ 30\<close>
  entries (the lengths at which \<^verbatim>\<open>(lo + hi) >> 1\<close> is the exact midpoint): an observed value
  strictly below every entry gets the percentile 0 when higher is better and 100 when
  lower is better; an observed value at or above the maximum entry gets 100 when higher
  is better and 0 when lower is better. The polarity flag swaps the two ends.
\<close>

theorem percentileOf_extremes:
  assumes "sortedAsc \<noteq> []" "sorted sortedAsc" "length sortedAsc \<le> 2 ^ 30"
  shows "((\<forall>x\<in>set sortedAsc. v < x) \<longrightarrow>
            percentileOf v sortedAsc True = Some (Some 0) \<and>
            percentileOf v sortedAsc False = Some (Some 100))
       \<and> (Max (set sortedAsc) \<le> v \<longrightarrow>
            percentileOf v sortedAsc True = Some (Some 100) \<and>
            percentileOf v sortedAsc False = Some (Some 0))"
proof (intro conjI impI)
  assume below: "\<forall>x\<in>set sortedAsc. v < x"
  have "bisect sortedAsc v 0 (int (length sortedAsc)) = Some 0"
    using below length_bound_int [OF assms(3)] by (intro bisect_below) auto
  from percentileOf_bisect [OF assms(1) this]
  show "percentileOf v sortedAsc True = Some (Some 0)"
    and "percentileOf v sortedAsc False = Some (Some 100)"
    by (simp_all add: math_round_def)
next
  assume "Max (set sortedAsc) \<le> v"
  then have above: "\<forall>x\<in>set sortedAsc. x \<le> v"
    using assms(1) by (simp add: Max_le_iff)
  have len: "real (length sortedAsc) \<noteq> 0" using assms(1) by simp
  have "bisect sortedAsc v 0 (int (length sortedAsc)) = Some (int (length sortedAsc))"
    using above assms(3) by (intro bisect_above) auto
  from percentileOf_bisect [OF assms(1) this] len
  show "percentileOf v sortedAsc True = Some (Some 100)"
    and "percentileOf v sortedAsc False = Some (Some 0)"
    by (simp_all add: math_round_def)
qed

theorem percentileOf_extremes_witness:
  "percentileOf 0 [1, 2, 3] True = Some (Some 0) \<and>
   percentileOf 0 [1, 2, 3] False = Some (Some 100) \<and>
   percentileOf 3 [1, 2, 3] True = Some (Some 100) \<and>
   percentileOf 3 [1, 2, 3] False = Some (Some 0)"
  using percentileOf_extremes [of "[1, 2, 3]" 0] percentileOf_extremes [of "[1, 2, 3]" 3]
  by simp

text \<open>
  The claim as worded promises 0 below all entries and 100 at the maximum for either
  polarity. With \<^verbatim>\<open>higherIsBetter = false\<close> the population \<open>[10, 20, 30, 40]\<close> gives 100 for
  the value 5, which is below all entries, and 0 for the value 40, the maximum.
\<close>

theorem percentileOf_polarity_counterexample:
  "percentileOf 5 [10, 20, 30, 40] False = Some (Some 100) \<and>
   percentileOf 5 [10, 20, 30, 40] False \<noteq> Some (Some 0) \<and>
   percentileOf 40 [10, 20, 30, 40] False = Some (Some 0) \<and>
   percentileOf 40 [10, 20, 30, 40] False \<noteq> Some (Some 100)"
  by (simp add: percentileOf_def bisect.simps midpoint_def toInt32_def element_le_def
      math_round_def)

text \<open>
  The bound on the length is where the midpoint is exact. Past it the sum \<open>lo + hi\<close> can
  reach \<open>2 ^ 31\<close>: on an array of \<open>3 * 2 ^ 29\<close> equal entries the search for that entry
  stops after one step and the percentile is 50.
\<close>

lemma percentileOf_midpoint_overflow:
  "percentileOf 0 (replicate 1610612736 0) True = Some (Some 50)"
  by (simp add: percentileOf_def bisect.simps midpoint_def toInt32_def element_le_def
      math_round_def)

lemma bisect_mono_array:
  assumes "length xs < 2 ^ 32" "v1 \<le> v2"
  shows "\<exists>r1 r2. bisect xs v1 0 (int (length xs)) = Some r1
            \<and> bisect xs v2 0 (int (length xs)) = Some r2 \<and> 0 \<le> r1 \<and> r1 \<le> r2"
proof (cases "int (length xs) < 2 ^ 31")
  case True
  obtain r1 r2 where r: "bisect xs v1 0 (int (length xs)) = Some r1"
      "bisect xs v2 0 (int (length xs)) = Some r2" "r1 \<le> r2"
    using bisect_mono [OF assms(2) _ True, of 0 xs] by auto
  moreover have "0 \<le> r1"
    using bisect_returns [OF _ True, of 0 xs v1] r(1) by auto
  ultimately show ?thesis by blast
next
  case False
  have "int (length xs) < int (2 ^ 32)" using assms(1) by (simp only: of_nat_less_iff)
  then have "int (length xs) < 2 ^ 32" by simp
  with False have "bisect xs v1 0 (int (length xs)) = Some 0"
      "bisect xs v2 0 (int (length xs)) = Some 0"
    by (simp_all add: bisect_huge)
  then show ?thesis by simp
qed

text \<open>
  Claim C2. For a fixed non-empty ascending array (of a length an array can have, below
  \<open>2 ^ 32\<close>) and two observed values \<open>v1 \<le> v2\<close>, both calls return a percentile, and the
  percentile of \<open>v1\<close> is at most that of \<open>v2\<close> when higher is better and at least that of
  \<open>v2\<close> when lower is better.
\<close>

theorem percentileOf_monotonic:
  assumes "sortedAsc \<noteq> []" "sorted sortedAsc" "length sortedAsc < 2 ^ 32" "v1 \<le> v2"
  shows "\<exists>p1 p2 q1 q2.
           percentileOf v1 sortedAsc True = Some (Some p1) \<and>
           percentileOf v2 sortedAsc True = Some (Some p2) \<and> p1 \<le> p2 \<and>
           percentileOf v1 sortedAsc False = Some (Some q1) \<and>
           percentileOf v2 sortedAsc False = Some (Some q2) \<and> q1 \<ge> q2"
proof -
  obtain r1 r2 where r: "bisect sortedAsc v1 0 (int (length sortedAsc)) = Some r1"
      "bisect sortedAsc v2 0 (int (length sortedAsc)) = Some r2" "r1 \<le> r2"
    using bisect_mono_array [OF assms(3,4)] by blast
  let ?n = "real (length sortedAsc)"
  have n: "0 < ?n" using assms(1) by simp
  have frac: "real_of_int r1 / ?n \<le> real_of_int r2 / ?n"
    using r(3) n by (simp add: divide_right_mono)
  have up: "math_round (real_of_int r1 / ?n * 100) \<le> math_round (real_of_int r2 / ?n * 100)"
    by (intro math_round_mono mult_right_mono) (use frac in simp_all)
  have down: "math_round ((1 - real_of_int r2 / ?n) * 100)
      \<le> math_round ((1 - real_of_int r1 / ?n) * 100)"
    by (intro math_round_mono mult_right_mono) (use frac in simp_all)
  show ?thesis
    using percentileOf_bisect [OF assms(1) r(1)] percentileOf_bisect [OF assms(1) r(2)] up down
    by simp
qed

theorem percentileOf_monotonic_witness:
  "(\<exists>p1 p2 q1 q2.
      percentileOf 15 [10, 20, 30, 40] True = Some (Some p1) \<and>
      percentileOf 30 [10, 20, 30, 40] True = Some (Some p2) \<and> p1 \<le> p2 \<and>
      percentileOf 15 [10, 20, 30, 40] False = Some (Some q1) \<and>
      percentileOf 30 [10, 20, 30, 40] False = Some (Some q2) \<and> q1 \<ge> q2)
   \<and> percentileOf 15 [10, 20, 30, 40] True = Some (Some 25)
   \<and> percentileOf 30 [10, 20, 30, 40] True = Some (Some 75)
   \<and> percentileOf 15 [10, 20, 30, 40] False = Some (Some 75)
   \<and> percentileOf 30 [10, 20, 30, 40] False = Some (Some 25)"
proof -
  have "percentileOf 15 [10, 20, 30, 40] True = Some (Some 25)"
    "percentileOf 30 [10, 20, 30, 40] True = Some (Some 75)"
    "percentileOf 15 [10, 20, 30, 40] False = Some (Some 75)"
    "percentileOf 30 [10, 20, 30, 40] False = Some (Some 25)"
    by (simp_all add: percentileOf_def bisect.simps midpoint_def toInt32_def element_le_def
        math_round_def)
  then show ?thesis
    using percentileOf_monotonic [of "[10, 20, 30, 40]" 15 30] by simp
qed

text \<open>
  Claim C5. The nose percentile is the general percentile function, lower being better,
  applied to the distance of the observed average from +2 and to the ascending sort of
  the distances of the population's nose values from +2.
\<close>

theorem nosePercentileFromAvg_spec:
  "nosePercentileFromAvg avgNose' g = spec_nose_percentile avgNose' (GlobalStats.nose g)"
  by (simp add: nosePercentileFromAvg_def spec_nose_percentile_def spec_nose_target_def
      array_sort_ascending)

theorem nosePercentileFromAvg_spec_witness:
  "nosePercentileFromAvg 3
     \<lparr>GlobalStats.speed = [], spin = [], nose = [0, 2, 5, 1], wobble = [],
      speedSorted = [], spinSorted = [], noseSorted = [0, 1, 2, 5], wobbleSorted = []\<rparr>
   = Some (Some 50)"
proof -
  have "spec_nose_percentile 3 [0, 2, 5, 1] = Some (Some 50)"
    by (simp add: spec_nose_percentile_def spec_nose_target_def percentileOf_def bisect.simps
        midpoint_def toInt32_def element_le_def math_round_def)
  then show ?thesis
    using nosePercentileFromAvg_spec
      [of 3 "\<lparr>GlobalStats.speed = [], spin = [], nose = [0, 2, 5, 1], wobble = [],
              speedSorted = [], spinSorted = [], noseSorted = [0, 1, 2, 5],
              wobbleSorted = []\<rparr>"]
    by simp
qed

subsection \<open>The generated population\<close>

text \<open>
  Claim C7. For every seed and sample count, each of the four sorted arrays of the
  generated population has the length and the multiset of values of its unsorted
  counterpart and is non-decreasing.
\<close>

theorem generated_sorted_copies:
  "length (speedSorted (generateSyntheticGlobalStats nSessions seed))
     = length (GlobalStats.speed (generateSyntheticGlobalStats nSessions seed))
   \<and> mset (speedSorted (generateSyntheticGlobalStats nSessions seed))
     = mset (GlobalStats.speed (generateSyntheticGlobalStats nSessions seed))
   \<and> sorted (speedSorted (generateSyntheticGlobalStats nSessions seed))
   \<and> length (spinSorted (generateSyntheticGlobalStats nSessions seed))
     = length (GlobalStats.spin (generateSyntheticGlobalStats nSessions seed))
   \<and> mset (spinSorted (generateSyntheticGlobalStats nSessions seed))
     = mset (GlobalStats.spin (generateSyntheticGlobalStats nSessions seed))
   \<and> sorted (spinSorted (generateSyntheticGlobalStats nSessions seed))
   \<and> length (noseSorted (generateSyntheticGlobalStats nSessions seed))
     = length (GlobalStats.nose (generateSyntheticGlobalStats nSessions seed))
   \<and> mset (noseSorted (generateSyntheticGlobalStats nSessions seed))
     = mset (GlobalStats.nose (generateSyntheticGlobalStats nSessions seed))
   \<and> sorted (noseSorted (generateSyntheticGlobalStats nSessions seed))
   \<and> length (wobbleSorted (generateSyntheticGlobalStats nSessions seed))
     = length (GlobalStats.wobble (generateSyntheticGlobalStats nSessions seed))
   \<and> mset (wobbleSorted (generateSyntheticGlobalStats nSessions seed))
     = mset (GlobalStats.wobble (generateSyntheticGlobalStats nSessions seed))
   \<and> sorted (wobbleSorted (generateSyntheticGlobalStats nSessions seed))"
  by (simp add: generateSyntheticGlobalStats_def array_sort_ascending split: prod.splits)

theorem generated_sorted_copies_witness:
  "length (speedSorted (generateSyntheticGlobalStats 6000 1337))
     = length (GlobalStats.speed (generateSyntheticGlobalStats 6000 1337))
   \<and> mset (wobbleSorted (generateSyntheticGlobalStats 6000 1337))
     = mset (GlobalStats.wobble (generateSyntheticGlobalStats 6000 1337))
   \<and> sorted (noseSorted (generateSyntheticGlobalStats 6000 1337))"
  using generated_sorted_copies [of 6000 1337] by blast

subsection \<open>The diagnosis rules\<close>

lemma set_insert_cmp: "set (insert_cmp cmp x ys) = insert x (set ys)"
  by (induction ys) auto

lemma set_array_sort: "set (array_sort cmp xs) = set xs"
  by (induction xs) (simp_all add: array_sort_def set_insert_cmp)

lemma issue_metric:
  "metric (wobble_high_issue toFixed w) = Wobble"
  "metric (wobble_some_issue toFixed w) = Wobble"
  "metric (nose_issue toFixed w) = Nose"
  "metric (spin_issue toFixed w) = Spin"
  "metric (power_issue toFixed w) = Power"
  by (simp_all add: wobble_high_issue_def wobble_some_issue_def nose_issue_def spin_issue_def
      power_issue_def)

lemma issue_priority:
  "priority (wobble_high_issue toFixed w) = 100"
  "priority (wobble_some_issue toFixed w) = 60"
  "priority (nose_issue toFixed w) = 90"
  "priority (spin_issue toFixed w) = 70"
  "priority (power_issue toFixed w) = 40"
  by (simp_all add: wobble_high_issue_def wobble_some_issue_def nose_issue_def spin_issue_def
      power_issue_def)

text \<open>
  Claim C3. For the averages wobble 4.2, nose 4.5, spin 800 and speed 45 the diagnosis
  returns exactly four issues, in the order wobble, nose, spin, power, with the priorities
  100, 90, 70 and 40; the list is sorted by descending priority. This holds whatever
  text \<^verbatim>\<open>toFixed\<close> prints.
\<close>

theorem buildIssues_example:
  "map metric (buildIssues toFixed
      \<lparr>avgSpeed = Some 45, avgSpin = Some 800, avgNose = Some 4.5, avgWobble = Some 4.2\<rparr>)
     = [Wobble, Nose, Spin, Power]
   \<and> map priority (buildIssues toFixed
      \<lparr>avgSpeed = Some 45, avgSpin = Some 800, avgNose = Some 4.5, avgWobble = Some 4.2\<rparr>)
     = [100, 90, 70, 40]
   \<and> length (buildIssues toFixed
      \<lparr>avgSpeed = Some 45, avgSpin = Some 800, avgNose = Some 4.5, avgWobble = Some 4.2\<rparr>)
     = 4
   \<and> sorted_wrt (\<lambda>a b. priority a \<ge> priority b) (buildIssues toFixed
      \<lparr>avgSpeed = Some 45, avgSpin = Some 800, avgNose = Some 4.5, avgWobble = Some 4.2\<rparr>)"
  by (simp add: buildIssues_def Let_def nullish_def array_sort_def issue_metric issue_priority)

theorem buildIssues_example_witness:
  "map metric (buildIssues (\<lambda>x d. [])
      \<lparr>avgSpeed = Some 45, avgSpin = Some 800, avgNose = Some 4.5, avgWobble = Some 4.2\<rparr>)
     = [Wobble, Nose, Spin, Power]"
  using buildIssues_example [of "\<lambda>x d. []"] by simp

lemma buildIssues_metrics:
  "metric ` set (buildIssues toFixed avgs) =
     {m. m = Wobble \<and> nullish (avgWobble avgs) 0 > 3
       \<or> m = Nose \<and> nullish (avgNose avgs) 0 > 4
       \<or> m = Spin \<and> nullish (avgSpin avgs) 0 > 0 \<and> nullish (avgSpin avgs) 0 < 900
       \<or> m = Power \<and> nullish (avgSpeed avgs) 0 > 0 \<and> nullish (avgSpeed avgs) 0 < 50}"
  by (auto simp: buildIssues_def Let_def set_array_sort issue_metric)

text \<open>
  Claim C4. An average that is absent fires no rule of its metric: with no wobble average
  the result holds no wobble issue, and likewise for nose, spin and speed (the metric
  power). \<open>buildIssues\<close> has no failing branch: it returns a list for every input.
\<close>

theorem buildIssues_absent:
  "(avgWobble avgs = None \<longrightarrow> Wobble \<notin> metric ` set (buildIssues toFixed avgs))
   \<and> (avgNose avgs = None \<longrightarrow> Nose \<notin> metric ` set (buildIssues toFixed avgs))
   \<and> (avgSpin avgs = None \<longrightarrow> Spin \<notin> metric ` set (buildIssues toFixed avgs))
   \<and> (avgSpeed avgs = None \<longrightarrow> Power \<notin> metric ` set (buildIssues toFixed avgs))"
  by (simp add: buildIssues_metrics nullish_def)

theorem buildIssues_absent_witness:
  "Wobble \<notin> metric ` set (buildIssues (\<lambda>x d. [])
      \<lparr>avgSpeed = Some 45, avgSpin = Some 800, avgNose = Some 4.5, avgWobble = None\<rparr>)
   \<and> Nose \<notin> metric ` set (buildIssues (\<lambda>x d. [])
      \<lparr>avgSpeed = Some 45, avgSpin = Some 800, avgNose = None, avgWobble = Some 4.2\<rparr>)
   \<and> Spin \<notin> metric ` set (buildIssues (\<lambda>x d. [])
      \<lparr>avgSpeed = Some 45, avgSpin = None, avgNose = Some 4.5, avgWobble = Some 4.2\<rparr>)
   \<and> Power \<notin> metric ` set (buildIssues (\<lambda>x d. [])
      \<lparr>avgSpeed = None, avgSpin = Some 800, avgNose = Some 4.5, avgWobble = Some 4.2\<rparr>)
   \<and> map metric (buildIssues (\<lambda>x d. [])
      \<lparr>avgSpeed = Some 45, avgSpin = Some 800, avgNose = Some 4.5, avgWobble = None\<rparr>)
     = [Nose, Spin, Power]"
proof -
  have "map metric (buildIssues (\<lambda>x d. [])
      \<lparr>avgSpeed = Some 45, avgSpin = Some 800, avgNose = Some 4.5, avgWobble = None\<rparr>)
     = [Nose, Spin, Power]"
    by (simp add: buildIssues_def Let_def nullish_def array_sort_def issue_metric issue_priority)
  then show ?thesis
    using
      buildIssues_absent [of "\<lparr>avgSpeed = Some 45, avgSpin = Some 800, avgNose = Some 4.5,
        avgWobble = None\<rparr>" "\<lambda>x d. []"]
      buildIssues_absent [of "\<lparr>avgSpeed = Some 45, avgSpin = Some 800, avgNose = None,
        avgWobble = Some 4.2\<rparr>" "\<lambda>x d. []"]
      buildIssues_absent [of "\<lparr>avgSpeed = Some 45, avgSpin = None, avgNose = Some 4.5,
        avgWobble = Some 4.2\<rparr>" "\<lambda>x d. []"]
      buildIssues_absent [of "\<lparr>avgSpeed = None, avgSpin = Some 800, avgNose = Some 4.5,
        avgWobble = Some 4.2\<rparr>" "\<lambda>x d. []"]
    by simp
qed

subsection \<open>The histogram counts every value of a finite range\<close>

lemma overflow_limit_large: "2 ^ 32 \<le> overflow_limit" "0 < overflow_limit"
  by (simp_all add: overflow_limit_def)

lemma rounded_finite: "- overflow_limit < x \<Longrightarrow> x < overflow_limit \<Longrightarrow> rounded x = Num x"
  by (simp add: rounded_def)

lemma scaled_position:
  fixes n :: nat and mn mx x :: real
  assumes "0 < n" "mn < mx" "mx - mn < overflow_limit"
  defines "y \<equiv> num_mul (num_div (num_sub (Num x) (Num mn)) (Num (mx - mn))) (Num (real n))"
  shows "y = PosInf \<and> mn < x \<or> y = NegInf \<and> x < mn
       \<or> y = Num ((x - mn) / (mx - mn) * real n)"
proof -
  note L = overflow_limit_large(2)
  let ?s = "mx - mn"
  have s: "0 < ?s" using assms(2) by simp
  have n: "0 < real n" using assms(1) by simp
  consider (hi) "overflow_limit \<le> x - mn" | (lo) "x - mn \<le> - overflow_limit"
    | (fin) "- overflow_limit < x - mn" "x - mn < overflow_limit"
    by linarith
  then show ?thesis
  proof cases
    case hi
    then have "num_sub (Num x) (Num mn) = PosInf" by (simp add: rounded_def)
    then have "y = PosInf" using s n by (simp add: y_def)
    moreover have "mn < x" using hi L by linarith
    ultimately show ?thesis by simp
  next
    case lo
    then have "num_sub (Num x) (Num mn) = NegInf" using L by (simp add: rounded_def)
    then have "y = NegInf" using s n by (simp add: y_def)
    moreover have "x < mn" using lo L by linarith
    ultimately show ?thesis by simp
  next
    case fin
    let ?q = "(x - mn) / ?s"
    have d: "num_div (num_sub (Num x) (Num mn)) (Num ?s) = rounded ?q"
      using fin s by (simp add: rounded_finite)
    consider (qhi) "overflow_limit \<le> ?q" | (qlo) "?q \<le> - overflow_limit"
      | (qfin) "- overflow_limit < ?q" "?q < overflow_limit"
      by linarith
    then show ?thesis
    proof cases
      case qhi
      then have "rounded ?q = PosInf" by (simp add: rounded_def)
      then have "y = PosInf" using d n by (simp add: y_def)
      moreover have "0 < ?q" using qhi L by linarith
      then have "mn < x" using s by (simp add: zero_less_divide_iff)
      ultimately show ?thesis by simp
    next
      case qlo
      then have "rounded ?q = NegInf" using L by (simp add: rounded_def)
      then have "y = NegInf" using d n by (simp add: y_def)
      moreover have "?q < 0" using qlo L by linarith
      then have "x < mn" using s by (simp add: divide_less_0_iff)
      ultimately show ?thesis by simp
    next
      case qfin
      then have q: "rounded ?q = Num ?q" by (simp add: rounded_finite)
      have y: "y = rounded (?q * real n)" using d q by (simp add: y_def)
      consider (phi) "overflow_limit \<le> ?q * real n" | (plo) "?q * real n \<le> - overflow_limit"
        | (pfin) "- overflow_limit < ?q * real n" "?q * real n < overflow_limit"
        by linarith
      then show ?thesis
      proof cases
        case phi
        then have "y = PosInf" using y by (simp add: rounded_def)
        moreover have "0 < ?q * real n" using phi L by linarith
        then have "0 < ?q" using n by (rule zero_less_mult_pos2)
        then have "mn < x" using s by (simp add: zero_less_divide_iff)
        ultimately show ?thesis by simp
      next
        case plo
        then have "y = NegInf" using y L by (simp add: rounded_def)
        moreover have "?q * real n < 0" using plo L by linarith
        then have "?q < 0" using n mult_nonneg_nonneg [of ?q "real n"] by linarith
        then have "x < mn" using s by (simp add: divide_less_0_iff)
        ultimately show ?thesis by simp
      next
        case pfin
        then show ?thesis using y by (simp add: rounded_finite)
      qed
    qed
  qed
qed

lemma bin_index:
  assumes "1 \<le> n" "n < 2 ^ 32" "mn < mx" "mx - mn < overflow_limit"
  shows "\<exists>k<n.
           math_min (num_sub (Num (real n)) (Num 1))
             (math_max (Num 0)
                (math_floor
                   (num_mul (num_div (num_sub (Num x) (Num mn)) (Num (mx - mn)))
                      (Num (real n)))))
           = Num (real k)
         \<and> (x < mn \<longrightarrow> k = 0) \<and> (mx < x \<longrightarrow> k = n - 1)"
proof -
  note L = overflow_limit_large
  let ?y = "num_mul (num_div (num_sub (Num x) (Num mn)) (Num (mx - mn))) (Num (real n))"
  let ?q = "(x - mn) / (mx - mn)"
  have s: "0 < mx - mn" using assms(3) by simp
  have "real n < 2 ^ 32" using assms(2) by (metis of_nat_less_iff of_nat_numeral of_nat_power)
  then have top: "num_sub (Num (real n)) (Num 1) = Num (real (n - 1))"
    using assms(1) L by (simp add: rounded_finite of_nat_diff)
  from scaled_position [of n mn mx x] assms
  consider (hi) "?y = PosInf" "mn < x" | (lo) "?y = NegInf" "x < mn"
    | (fin) "?y = Num (?q * real n)"
    by auto
  then show ?thesis
  proof cases
    case hi
    then show ?thesis using top assms(1) by (intro exI [of _ "n - 1"]) auto
  next
    case lo
    then show ?thesis using top assms(1,3) by (intro exI [of _ 0]) auto
  next
    case fin
    let ?z = "\<lfloor>?q * real n\<rfloor>"
    let ?k = "nat (min (int n - 1) (max 0 ?z))"
    have "0 \<le> min (int n - 1) (max 0 ?z)" using assms(1) by simp
    then have "real ?k = real_of_int (min (int n - 1) (max 0 ?z))" by simp
    also have "\<dots> = min (real_of_int (int n - 1)) (max 0 (of_int ?z))"
      by (simp only: of_int_min of_int_max of_int_0)
    also have "real_of_int (int n - 1) = real (n - 1)"
      using assms(1) by (simp add: of_nat_diff)
    finally have k: "real ?k = min (real (n - 1)) (max 0 (of_int ?z))" .
    have "?k < n" using assms(1) by auto
    moreover have "math_min (num_sub (Num (real n)) (Num 1)) (math_max (Num 0) (math_floor ?y))
        = Num (real ?k)"
      using fin top k by simp
    moreover have "x < mn \<longrightarrow> ?k = 0"
    proof
      assume "x < mn"
      then have "?q < 0" using s by (simp add: divide_less_0_iff)
      then have "?q * real n < 0" using assms(1) by (intro mult_neg_pos) simp_all
      then have "?z < 0" by linarith
      then show "?k = 0" by simp
    qed
    moreover have "mx < x \<longrightarrow> ?k = n - 1"
    proof
      assume "mx < x"
      then have "mx - mn < x - mn" by simp
      then have "1 < ?q" using s by (simp only: less_divide_eq_1_pos)
      then have "1 * real n < ?q * real n" using assms(1) by (intro mult_strict_right_mono) simp_all
      then have "real n < ?q * real n" by simp
      then have "int n \<le> ?z" by linarith
      then show "?k = n - 1" by simp
    qed
    ultimately show ?thesis by blast
  qed
qed

lemma increment_bin: "k < length arr \<Longrightarrow> increment arr (Num (real k)) = arr[k := arr ! k + 1]"
  by (simp add: increment_def)

lemma histogram_loop:
  assumes "\<forall>v\<in>set vs. g v < length cs \<and> f v = Num (real (g v))"
  shows "length (foldl (\<lambda>counts v. increment counts (f v)) cs vs) = length cs
       \<and> sum_list (foldl (\<lambda>counts v. increment counts (f v)) cs vs) = sum_list cs + length vs
       \<and> (\<forall>j<length cs. foldl (\<lambda>counts v. increment counts (f v)) cs vs ! j
             = cs ! j + length (filter (\<lambda>v. g v = j) vs))"
  using assms
proof (induction vs rule: rev_induct)
  case Nil
  then show ?case by simp
next
  case (snoc v vs)
  let ?step = "\<lambda>counts v. increment counts (f v)"
  let ?cs = "foldl ?step cs vs"
  from snoc have IH: "length ?cs = length cs" "sum_list ?cs = sum_list cs + length vs"
      "\<forall>j<length cs. ?cs ! j = cs ! j + length (filter (\<lambda>v. g v = j) vs)"
    by simp_all
  from snoc.prems have v: "g v < length ?cs" "f v = Num (real (g v))"
    using IH(1) by simp_all
  have step: "foldl ?step cs (vs @ [v]) = ?cs[g v := ?cs ! g v + 1]"
    using v by (simp add: increment_bin)
  have "sum_list (?cs[g v := ?cs ! g v + 1]) = sum_list ?cs + (?cs ! g v + 1) - ?cs ! g v"
    using v(1) by (rule sum_list_update)
  then have total: "sum_list (foldl ?step cs (vs @ [v])) = sum_list cs + length (vs @ [v])"
    using step IH(2) by simp
  have "\<forall>j<length cs. foldl ?step cs (vs @ [v]) ! j
      = cs ! j + length (filter (\<lambda>v. g v = j) (vs @ [v]))"
    using step IH(1,3) v(1) by (auto simp: nth_list_update)
  then show ?case using step total IH(1) by simp
qed

lemma filter_length_mono:
  assumes "\<forall>v\<in>set vs. below v \<longrightarrow> in_bin v"
  shows "length (filter below vs) \<le> length (filter in_bin vs)"
  using assms by (induction vs) auto

text \<open>
  Claim C6, as the code has it. For every list of finite values, every integer bin count
  from 1 to \<open>2 ^ 32 - 1\<close> and every finite range with \<open>min < max\<close> whose width \<open>max - min\<close>
  stays below the overflow limit, the call returns and the bucket counts add up to the
  number of values: every value below \<open>min\<close> is counted in the first bin and every value
  above \<open>max\<close> in the last.
\<close>

theorem computeHistogram_total:
  assumes "1 \<le> n" "n < 2 ^ 32" "mn < mx" "mx - mn < overflow_limit"
  shows "\<exists>h. computeHistogram (map Num vs) (Num (real n)) (Num mn) (Num mx) = Inr h
           \<and> sum_list (counts h) = length vs
           \<and> length (filter (\<lambda>v. v < mn) vs) \<le> counts h ! 0
           \<and> length (filter (\<lambda>v. mx < v) vs) \<le> counts h ! (n - 1)"
proof -
  note L = overflow_limit_large
  let ?f = "\<lambda>x. math_min (num_sub (Num (real n)) (Num 1))
             (math_max (Num 0)
                (math_floor
                   (num_mul (num_div (num_sub (Num x) (Num mn)) (Num (mx - mn)))
                      (Num (real n)))))"
  let ?cs = "foldl (\<lambda>counts x. increment counts (?f x)) (replicate n 0) vs"
  have "\<forall>x. \<exists>k. k < n \<and> ?f x = Num (real k) \<and> (x < mn \<longrightarrow> k = 0) \<and> (mx < x \<longrightarrow> k = n - 1)"
    using bin_index [OF assms] by blast
  then obtain g where g: "\<And>x. g x < n" "\<And>x. ?f x = Num (real (g x))"
      "\<And>x. x < mn \<Longrightarrow> g x = 0" "\<And>x. mx < x \<Longrightarrow> g x = n - 1"
    by metis
  have loop: "length ?cs = n" "sum_list ?cs = length vs"
      "\<forall>j<n. ?cs ! j = length (filter (\<lambda>v. g v = j) vs)"
    using histogram_loop [of vs g "replicate n 0" ?f] g(1,2) by simp_all
  have "real n < 2 ^ 32" using assms(2) by (metis of_nat_less_iff of_nat_numeral of_nat_power)
  then have len: "array_length (Num (real n)) = Some n"
    by (simp add: array_length_def)
  have span: "rounded (mx - mn) = Num (mx - mn)"
    using assms(3,4) L by (simp add: rounded_finite)
  have "computeHistogram (map Num vs) (Num (real n)) (Num mn) (Num mx)
      = Inr \<lparr>counts = ?cs, min' = Num mn, max' = Num mx\<rparr>"
    using assms(3) by (simp add: computeHistogram_def len span Let_def foldl_map)
  moreover have "length (filter (\<lambda>v. v < mn) vs) \<le> ?cs ! 0"
    using loop(3) assms(1) g(3) by (simp add: filter_length_mono)
  moreover have "length (filter (\<lambda>v. mx < v) vs) \<le> ?cs ! (n - 1)"
    using loop(3) assms(1) g(4) by (simp add: filter_length_mono)
  ultimately show ?thesis using loop(2) by simp
qed

lemma histogram_example:
  "computeHistogram (map Num [0.5, 3, - 7, 100, 9.99]) (Num 4) (Num 0) (Num 10)
   = Inr \<lparr>counts = [2, 1, 0, 2], min' = Num 0, max' = Num 10\<rparr>"
  by (simp add: computeHistogram_def array_length_def increment_def Let_def rounded_def
      overflow_limit_def numeral_eq_Suc)

theorem computeHistogram_total_witness:
  "(\<exists>h. computeHistogram (map Num [0.5, 3, - 7, 100, 9.99]) (Num 4) (Num 0) (Num 10) = Inr h
       \<and> sum_list (counts h) = 5 \<and> 1 \<le> counts h ! 0 \<and> 1 \<le> counts h ! 3)
   \<and> computeHistogram (map Num [0.5, 3, - 7, 100, 9.99]) (Num 4) (Num 0) (Num 10)
     = Inr \<lparr>counts = [2, 1, 0, 2], min' = Num 0, max' = Num 10\<rparr>"
  using computeHistogram_total [of 4 0 10 "[0.5, 3, - 7, 100, 9.99]"] histogram_example
  by (simp add: overflow_limit_def)

text \<open>
  The claim as worded covers every finite range and every bin count. On the range from
  \<open>- 2 ^ 1023\<close> to \<open>2 ^ 1023\<close> both \<^verbatim>\<open>max - min\<close> and \<^verbatim>\<open>v - min\<close> for the value \<open>2 ^ 1023\<close>
  overflow to infinity, their quotient is NaN, \<^verbatim>\<open>counts[NaN]++\<close> touches no bin, and the
  four counts add up to 0 for a list of one value. With \<open>2 ^ 32\<close> bins
  \<^verbatim>\<open>new Array(bins)\<close> throws and no counts are returned.
\<close>

theorem computeHistogram_overflow_counterexample:
  "computeHistogram [Num (2 ^ 1023)] (Num 4) (Num (- (2 ^ 1023))) (Num (2 ^ 1023))
     = Inr \<lparr>counts = [0, 0, 0, 0], min' = Num (- (2 ^ 1023)), max' = Num (2 ^ 1023)\<rparr>
   \<and> sum_list [0, 0, 0, 0 :: nat] \<noteq> length [Num (2 ^ 1023)]
   \<and> computeHistogram [] (Num 4294967296) (Num 0) (Num 1) = Inl RangeError"
  by (simp add: computeHistogram_def array_length_def increment_def Let_def rounded_def
      overflow_limit_def numeral_eq_Suc)

subsection \<open>The standard deviation of fewer than two values\<close>

text \<open>
  Claim C8. The sample standard deviation of an array with fewer than two elements is
  absent, not zero; in particular that of a single-element array.
\<close>

theorem sd_undefined:
  "(length arr < 2 \<longrightarrow> sd arr = None \<and> sd arr \<noteq> Some 0) \<and> sd [x] = None"
  by (simp add: sd_def)

theorem sd_undefined_witness:
  "sd [5] = None \<and> sd [5] \<noteq> Some 0 \<and> sd [] = None \<and> sd [3, 3] = Some 0"
proof -
  have "sd [3, 3] = Some 0" by (simp add: sd_def mean_def)
  then show ?thesis
    using sd_undefined [of "[5]" 5] sd_undefined [of "[]" 5] by simp
qed

subsection \<open>The nose band outside the three named ranges\<close>

text \<open>
  Claim C9. A nose average that is neither in \<open>[1, 3]\<close> nor in \<open>(3, 5]\<close> nor above 5 is
  banded Intermediate, with the score 0.6 when its absolute value is at most 1 and the
  score 0.65 otherwise, that is when it is below \<open>- 1\<close>.
\<close>

theorem bandForMetric_nose_rest:
  assumes "\<not> (1 \<le> v \<and> v \<le> 3)" "\<not> (3 < v \<and> v \<le> 5)" "\<not> 5 < v"
  shows "band (bandForMetric Nose (Some v)) = Intermediate
       \<and> score01 (bandForMetric Nose (Some v)) = (if \<bar>v\<bar> \<le> 1 then 0.6 else 0.65)
       \<and> (\<not> \<bar>v\<bar> \<le> 1 \<longleftrightarrow> v < - 1)"
  using assms by (auto simp: bandForMetric_def)

theorem bandForMetric_nose_rest_witness:
  "band (bandForMetric Nose (Some 0.5)) = Intermediate
   \<and> score01 (bandForMetric Nose (Some 0.5)) = 0.6
   \<and> band (bandForMetric Nose (Some (- 2))) = Intermediate
   \<and> score01 (bandForMetric Nose (Some (- 2))) = 0.65"
  using bandForMetric_nose_rest [of "0.5"] bandForMetric_nose_rest [of "- 2"] by simp

subsection \<open>Throws without speed and spin\<close>

text \<open>
  Claim C10. A throw that carries neither speed nor spin contributes to no session
  statistic, whatever nose or wobble value it carries: the statistics of a session are
  those of the session without that throw.
\<close>

theorem stats_skip_throw:
  assumes "speed t = None" "spin t = None"
  shows "stats (cleanThrows (before @ t # after)) = stats (cleanThrows (before @ after))"
  using assms by (simp add: cleanThrows_def)

theorem stats_skip_throw_witness:
  "stats (cleanThrows
     [\<lparr>idx = 1, time = None, speed = Some 50, spin = Some 900, nose = Some 2,
       wobble = Some 3, launch = None, hyzer = None, primaryThrowType = None,
       throwType = None\<rparr>,
      \<lparr>idx = 2, time = None, speed = None, spin = None, nose = Some 9,
       wobble = Some 7, launch = None, hyzer = None, primaryThrowType = None,
       throwType = None\<rparr>])
   = stats (cleanThrows
     [\<lparr>idx = 1, time = None, speed = Some 50, spin = Some 900, nose = Some 2,
       wobble = Some 3, launch = None, hyzer = None, primaryThrowType = None,
       throwType = None\<rparr>])
   \<and> avgNose (stats (cleanThrows
     [\<lparr>idx = 1, time = None, speed = Some 50, spin = Some 900, nose = Some 2,
       wobble = Some 3, launch = None, hyzer = None, primaryThrowType = None,
       throwType = None\<rparr>,
      \<lparr>idx = 2, time = None, speed = None, spin = None, nose = Some 9,
       wobble = Some 7, launch = None, hyzer = None, primaryThrowType = None,
       throwType = None\<rparr>])) = Some 2"
proof -
  have "avgNose (stats (cleanThrows
     [\<lparr>idx = 1, time = None, speed = Some 50, spin = Some 900, nose = Some 2,
       wobble = Some 3, launch = None, hyzer = None, primaryThrowType = None,
       throwType = None\<rparr>])) = Some 2"
    by (simp add: stats_def cleanThrows_def numbers_def mean_def)
  then show ?thesis
    using stats_skip_throw
      [of "\<lparr>idx = 2, time = None, speed = None, spin = None, nose = Some 9,
            wobble = Some 7, launch = None, hyzer = None, primaryThrowType = None,
            throwType = None\<rparr>"
          "[\<lparr>idx = 1, time = None, speed = Some 50, spin = Some 900, nose = Some 2,
            wobble = Some 3, launch = None, hyzer = None, primaryThrowType = None,
            throwType = None\<rparr>]"
          "[]"]
    by simp
qed

end
